theory Spec2Isabelle
  imports Main "HOL-Library.Word"
begin

section \<open>Go library functions that client.go calls\<close>

text \<open>
  Go strings are byte sequences and \<open>len\<close> counts bytes, so a Go string is a
  \<^typ>\<open>string\<close> (a list of 8-bit characters) and \<open>len\<close> is \<^const>\<open>length\<close>.
  The functions of package \<open>strings\<close> that the session engine uses are written out
  for the arguments it passes: every separator is a single byte, and the limit of
  \<open>SplitN\<close> is not negative.
\<close>

definition HasPrefix :: "string \<Rightarrow> string \<Rightarrow> bool" where
  "HasPrefix s prefix = (length prefix \<le> length s \<and> take (length prefix) s = prefix)"

text \<open>
  \<open>strings.SplitN(s, sep, n)\<close>: at most \<open>n\<close> pieces, the last one the unsplit
  remainder; \<open>n = 0\<close> gives no pieces.
\<close>

fun SplitN :: "string \<Rightarrow> char \<Rightarrow> nat \<Rightarrow> string list" where
  "SplitN s sep 0 = []"
| "SplitN s sep (Suc 0) = [s]"
| "SplitN s sep (Suc (Suc n)) =
     (if sep \<in> set s
      then takeWhile (\<lambda>c. c \<noteq> sep) s # SplitN (tl (dropWhile (\<lambda>c. c \<noteq> sep) s)) sep (Suc n)
      else [s])"

definition Count :: "string \<Rightarrow> char \<Rightarrow> nat" where
  "Count s sep = length (filter (\<lambda>c. c = sep) s)"

text \<open>\<open>strings.Split(s, sep)\<close> is \<open>SplitN\<close> with the limit \<open>Count(s, sep) + 1\<close>.\<close>

definition Split :: "string \<Rightarrow> char \<Rightarrow> string list" where
  "Split s sep = SplitN s sep (Count s sep + 1)"

text \<open>
  \<open>strings.TrimLeft(s, cutset)\<close> drops every leading character that occurs in the
  cutset. The cutset passed is ASCII, so characters are bytes here.
\<close>

definition TrimLeft :: "string \<Rightarrow> string \<Rightarrow> string" where
  "TrimLeft s cutset = dropWhile (\<lambda>c. c \<in> set cutset) s"

fun Join :: "string list \<Rightarrow> string \<Rightarrow> string" where
  "Join [] sep = []"
| "Join [a] sep = a"
| "Join (a # b # bs) sep = a @ sep @ Join (b # bs) sep"

text \<open>The verb \<open>%d\<close> of \<open>fmt.Sprintf\<close>: decimal digits, with a sign for negative values.\<close>

fun digits :: "nat \<Rightarrow> string" where
  "digits n =
     (if n < 10 then [char_of (48 + n)]
      else digits (n div 10) @ [char_of (48 + n mod 10)])"

definition Itoa :: "int \<Rightarrow> string" where
  "Itoa i = (if i < 0 then CHR ''-'' # digits (nat (- i)) else digits (nat i))"

section \<open>Constants of client.go\<close>

definition MSG_BUFFER :: nat where
  "MSG_BUFFER = 10"

definition HELP_TEXT :: string where
  "HELP_TEXT = ''-> Available commands:\<newline>   /about\<newline>   /exit\<newline>   /help\<newline>   /list\<newline>   /nick $NAME\<newline>   /whois $NAME\<newline>''"

definition ABOUT_TEXT :: string where
  "ABOUT_TEXT = ''-> ssh-chat is made by @shazow.\<newline>\<newline>   It is a custom ssh server built in Go to serve a chat experience\<newline>   instead of a shell.\<newline>\<newline>   Source: https://github.com/shazow/ssh-chat\<newline>\<newline>   For more, visit shazow.net or follow at twitter.com/shazow\<newline>''"

section \<open>The client and its collaborators\<close>

text \<open>
  Time is counted in nanoseconds on one axis: a \<open>time.Time\<close> is an integer instant and
  a \<open>time.Duration\<close> an integer number of nanoseconds, so \<open>Time.Add\<close> is addition and
  \<open>Time.After\<close> is \<open>>\<close>. (A duration is a 64-bit value and \<open>Add\<close> on a clock reading
  does not leave the range of \<open>Time\<close>, so no wrap-around is involved.)
\<close>

type_synonym time = int
type_synonym duration = int

definition Minute :: duration where
  "Minute = 60 * 1000000000"

text \<open>
  Clients are shared by pointer between sessions: a pointer is a number and the store
  maps every pointer to the client it points to. A channel of the transport is a number
  as well.
\<close>

type_synonym cid = nat
type_synonym channel = nat

record Terminal =
  term_channel :: channel
  term_prompt :: string

text \<open>
  The fields of \<open>Client\<close>. The connection \<open>Conn\<close> is read only for the client's
  version string and for the fingerprint among its permissions, so these two stand
  for it. The mailbox \<open>Msg\<close> is a Go channel: a send on it is an effect (see below).
\<close>

record Client =
  Name :: string
  Op :: bool
  terminal :: "Terminal option"
  termWidth :: int
  termHeight :: int
  silencedUntil :: time
  Conn_ClientVersion :: string
  Conn_fingerprint :: string

type_synonym store = "cid \<Rightarrow> Client"

text \<open>
  What the code does to its collaborators, in program order: writes to a client's
  terminal, sends on a client's mailbox, calls into the registry (the server), and
  calls on the transport (channels, requests, the connection).
\<close>

datatype event =
    TermWrite cid string
  | MsgSend cid string
  | Broadcast string "cid option"
  | ServerRename cid string
  | ServerBan string
  | ServerOp string
  | ConnClose cid
  | ChannelClose channel
  | Reject string
  | Errorf string
  | GoHandleShell channel
  | Reply bool

text \<open>
  What the collaborators answer while one input line is handled: the registry's
  \<open>IsOp\<close>, \<open>Who\<close> and \<open>List\<close>, the clock, and the two functions of package
  \<open>time\<close> (parsing a duration, printing one).
\<close>

record shell_env =
  Server_IsOp :: "cid \<Rightarrow> bool"
  Server_Who :: "string \<Rightarrow> cid option"
  Server_List :: "string list"
  time_Now :: time
  time_ParseDuration :: "string \<Rightarrow> duration option"
  Duration_String :: "duration \<Rightarrow> string"

section \<open>Methods of Client\<close>

definition Write :: "cid \<Rightarrow> string \<Rightarrow> event" where
  "Write c msg = TermWrite c (msg @ [CHR 0x0D, CHR 0x0A])"

definition WriteLines :: "cid \<Rightarrow> string list \<Rightarrow> event list" where
  "WriteLines c msg = map (Write c) msg"

definition IsSilenced :: "Client \<Rightarrow> time \<Rightarrow> bool" where
  "IsSilenced c now = (silencedUntil c > now)"

definition Silence :: "Client \<Rightarrow> duration \<Rightarrow> time \<Rightarrow> Client" where
  "Silence c d now = c\<lparr>silencedUntil := now + d\<rparr>"

definition Fingerprint :: "Client \<Rightarrow> string" where
  "Fingerprint c = Conn_fingerprint c"

section \<open>The command loop: one input line\<close>

text \<open>
  \<open>handleShell\<close> reads lines from the terminal until a read fails, and handles each
  line as below. The result is the store after the line and the effects in program
  order. A send on a mailbox is recorded as the effect \<open>MsgSend\<close>; whether it blocks
  on a full mailbox is a matter of scheduling and is not part of this model. Every client
  that the registry returns, and the session itself, has its terminal: sessions register
  from \<open>handleShell\<close>, which starts only after the terminal has been stored.
\<close>

definition case_me :: "shell_env \<Rightarrow> cid \<Rightarrow> store \<Rightarrow> string \<Rightarrow> store \<times> event list" where
  "case_me e c w line =
     (let me = TrimLeft line ''/me'';
          me = (if me = [] then '' is at a loss for words.'' else me);
          msg = ''** '' @ Name (w c) @ me
      in if IsSilenced (w c) (time_Now e) \<or> length msg > 1000
         then (w, [MsgSend c ''-> Message rejected.''])
         else (w, [Broadcast msg None]))"

definition case_nick :: "cid \<Rightarrow> store \<Rightarrow> string list \<Rightarrow> store \<times> event list" where
  "case_nick c w parts =
     (if length parts = 2 then (w, [ServerRename c (parts ! 1)])
      else (w, [MsgSend c ''-> Missing $NAME from: /nick $NAME'']))"

definition case_whois :: "shell_env \<Rightarrow> cid \<Rightarrow> store \<Rightarrow> string list \<Rightarrow> store \<times> event list" where
  "case_whois e c w parts =
     (if length parts = 2
      then (case Server_Who e (parts ! 1) of
              Some client \<Rightarrow>
                (let version = Conn_ClientVersion (w client);
                     version = (if length version > 100
                                then ''Evil Jerk with a superlong string'' else version)
                 in (w, [MsgSend c (''-> '' @ Name (w client) @ '' is ''
                                     @ Fingerprint (w client) @ '' via '' @ version)]))
            | None \<Rightarrow> (w, [MsgSend c (''-> No such name: '' @ parts ! 1)]))
      else (w, [MsgSend c ''-> Missing $NAME from: /whois $NAME'']))"

definition case_list :: "shell_env \<Rightarrow> cid \<Rightarrow> store \<Rightarrow> store \<times> event list" where
  "case_list e c w =
     (let names = Server_List e
      in (w, [MsgSend c (''-> '' @ Itoa (int (length names)) @ '' connected: ''
                          @ Join names '', '')]))"

definition case_ban :: "shell_env \<Rightarrow> cid \<Rightarrow> store \<Rightarrow> string list \<Rightarrow> store \<times> event list" where
  "case_ban e c w parts =
     (if \<not> Server_IsOp e c then (w, [MsgSend c ''-> You're not an admin.''])
      else if length parts \<noteq> 2 then (w, [MsgSend c ''-> Missing $NAME from: /ban $NAME''])
      else (case Server_Who e (parts ! 1) of
              None \<Rightarrow> (w, [MsgSend c (''-> No such name: '' @ parts ! 1)])
            | Some client \<Rightarrow>
                (let fingerprint = Fingerprint (w client)
                 in (w, [Write client (''-> Banned by '' @ Name (w c) @ ''.''),
                         ServerBan fingerprint,
                         ConnClose client,
                         Broadcast (''* '' @ parts ! 1 @ '' was banned by '' @ Name (w c))
                           None]))))"

definition case_op :: "shell_env \<Rightarrow> cid \<Rightarrow> store \<Rightarrow> string list \<Rightarrow> store \<times> event list" where
  "case_op e c w parts =
     (if \<not> Server_IsOp e c then (w, [MsgSend c ''-> You're not an admin.''])
      else if length parts \<noteq> 2 then (w, [MsgSend c ''-> Missing $NAME from: /op $NAME''])
      else (case Server_Who e (parts ! 1) of
              None \<Rightarrow> (w, [MsgSend c (''-> No such name: '' @ parts ! 1)])
            | Some client \<Rightarrow>
                (let fingerprint = Fingerprint (w client)
                 in (w, [Write client (''-> Made op by '' @ Name (w c) @ ''.''),
                         ServerOp fingerprint]))))"

definition case_silence :: "shell_env \<Rightarrow> cid \<Rightarrow> store \<Rightarrow> string list \<Rightarrow> store \<times> event list" where
  "case_silence e c w parts =
     (if \<not> Server_IsOp e c then (w, [MsgSend c ''-> You're not an admin.''])
      else if length parts < 2
      then (w, [MsgSend c ''-> Missing $NAME from: /silence $NAME''])
      else (let duration = 5 * Minute;
                duration = (if length parts \<ge> 3
                            then (case time_ParseDuration e (parts ! 2) of
                                    Some parsedDuration \<Rightarrow> parsedDuration
                                  | None \<Rightarrow> duration)
                            else duration)
            in case Server_Who e (parts ! 1) of
                 None \<Rightarrow> (w, [MsgSend c (''-> No such name: '' @ parts ! 1)])
               | Some client \<Rightarrow>
                   (let w' = w(client := Silence (w client) duration (time_Now e))
                    in (w', [Write client (''-> Silenced for '' @ Duration_String e duration
                                            @ '' by '' @ Name (w' c) @ ''.'')]))))"

definition handleLine ::
  "shell_env \<Rightarrow> cid \<Rightarrow> channel \<Rightarrow> store \<Rightarrow> string \<Rightarrow> store \<times> event list" where
  "handleLine e c chan w line =
     (let parts = SplitN line CHR '' '' 3;
          isCmd = HasPrefix (parts ! 0) ''/''
      in if isCmd
         then (if parts ! 0 = ''/exit'' then (w, [ChannelClose chan])
               else if parts ! 0 = ''/help''
                 then (w, WriteLines c (Split HELP_TEXT CHR ''\<newline>''))
               else if parts ! 0 = ''/about''
                 then (w, WriteLines c (Split ABOUT_TEXT CHR ''\<newline>''))
               else if parts ! 0 = ''/me'' then case_me e c w line
               else if parts ! 0 = ''/nick'' then case_nick c w parts
               else if parts ! 0 = ''/whois'' then case_whois e c w parts
               else if parts ! 0 = ''/list'' then case_list e c w
               else if parts ! 0 = ''/ban'' then case_ban e c w parts
               else if parts ! 0 = ''/op'' then case_op e c w parts
               else if parts ! 0 = ''/silence'' then case_silence e c w parts
               else (w, [MsgSend c (''-> Invalid command: '' @ line)]))
         else (let msg = Name (w c) @ '': '' @ line
               in if IsSilenced (w c) (time_Now e) \<or> length msg > 1000
                  then (w, [MsgSend c ''-> Message rejected.''])
                  else (w, [Broadcast msg (Some c)])))"

section \<open>Channel negotiation\<close>

text \<open>
  A request on an accepted channel, and a channel the transport offers. \<open>Accept\<close>
  either fails with an error or gives the channel and the requests that arrive on it,
  in order, until the channel's request stream is closed.
\<close>

record Request =
  Type :: string
  Payload :: "8 word list"
  WantReply :: bool

record NewChannel =
  ChannelType :: string
  Accept :: "string + channel \<times> Request list"

text \<open>
  What \<open>handleChannels\<close> calls outside client.go: the two payload parsers, which
  return \<open>(width, height, ok)\<close>, and the terminal's \<open>SetSize\<close>, which returns an
  error or none.
\<close>

record chan_env =
  parsePtyRequest :: "8 word list \<Rightarrow> int \<times> int \<times> bool"
  parseWinchRequest :: "8 word list \<Rightarrow> int \<times> int \<times> bool"
  term_SetSize :: "int \<Rightarrow> int \<Rightarrow> string option"

definition Resize :: "chan_env \<Rightarrow> Client \<Rightarrow> int \<Rightarrow> int \<Rightarrow> Client \<times> event list \<times> string option" where
  "Resize e c width height =
     (case term_SetSize e width height of
        Some err \<Rightarrow>
          (c, [Errorf (''Resize failed: '' @ Itoa width @ ''x'' @ Itoa height)], Some err)
      | None \<Rightarrow> (c\<lparr>termWidth := width, termHeight := height\<rparr>, [], None))"

text \<open>
  The body of the loop over a channel's requests. The state is the client together with
  the local variable \<open>hasShell\<close> of \<open>handleChannels\<close>.
\<close>

definition handleRequest ::
  "chan_env \<Rightarrow> channel \<Rightarrow> Client \<times> bool \<Rightarrow> Request \<Rightarrow> (Client \<times> bool) \<times> event list" where
  "handleRequest e chan st req =
     (let (c, hasShell) = st;
          (c', hasShell', evs, ok) =
            (if Type req = ''shell''
             then (if terminal c \<noteq> None \<and> \<not> hasShell
                   then (c, True, [GoHandleShell chan], True)
                   else (c, hasShell, [], False))
             else if Type req = ''pty-req''
             then (let (width, height, ok) = parsePtyRequest e (Payload req)
                   in if ok
                      then (let (c', evs, err) = Resize e c width height
                            in (c', hasShell, evs, err = None))
                      else (c, hasShell, [], False))
             else if Type req = ''window-change''
             then (let (width, height, ok) = parseWinchRequest e (Payload req)
                   in if ok
                      then (let (c', evs, err) = Resize e c width height
                            in (c', hasShell, evs, err = None))
                      else (c, hasShell, [], False))
             else (c, hasShell, [], False))
      in ((c', hasShell'), evs @ (if WantReply req then [Reply ok] else [])))"

fun handleRequests ::
  "chan_env \<Rightarrow> channel \<Rightarrow> Client \<times> bool \<Rightarrow> Request list \<Rightarrow> (Client \<times> bool) \<times> event list" where
  "handleRequests e chan st [] = (st, [])"
| "handleRequests e chan st (req # requests) =
     (let (st', evs) = handleRequest e chan st req;
          (st'', evs') = handleRequests e chan st' requests
      in (st'', evs @ evs'))"

text \<open>
  The loop over the offered channels. Its third result lists the channels whose
  \<open>Close\<close> is deferred, in the order in which the deferred calls run when
  \<open>handleChannels\<close> returns (last deferred, first run).
\<close>

fun channelsLoop ::
  "chan_env \<Rightarrow> string \<Rightarrow> Client \<times> bool \<Rightarrow> NewChannel list
     \<Rightarrow> (Client \<times> bool) \<times> event list \<times> channel list" where
  "channelsLoop e prompt st [] = (st, [], [])"
| "channelsLoop e prompt st (ch # channels) =
     (if ChannelType ch \<noteq> ''session''
      then (let (st', evs, deferred) = channelsLoop e prompt st channels
            in (st', Reject (''unknown channel type: '' @ ChannelType ch) # evs, deferred))
      else (case Accept ch of
              Inl err \<Rightarrow>
                (let (st', evs, deferred) = channelsLoop e prompt st channels
                 in (st', Errorf (''Could not accept channel: '' @ err) # evs, deferred))
            | Inr (chan, requests) \<Rightarrow>
                (let (c, hasShell) = st;
                     c = c\<lparr>terminal := Some \<lparr>term_channel = chan, term_prompt = prompt\<rparr>\<rparr>;
                     (st', evs) = handleRequests e chan (c, hasShell) requests;
                     (st'', evs', deferred) = channelsLoop e prompt st' channels
                 in (st'', evs @ evs', deferred @ [chan]))))"

definition handleChannels :: "chan_env \<Rightarrow> Client \<Rightarrow> NewChannel list \<Rightarrow> Client \<times> event list" where
  "handleChannels e c channels =
     (let prompt = ''['' @ Name c @ ''] '';
          hasShell = False;
          ((c', hasShell'), evs, deferred) = channelsLoop e prompt (c, hasShell) channels
      in (c', evs @ map ChannelClose deferred))"

section \<open>Reading a trace of effects\<close>

text \<open>
  What a trace holds for one observer, in order: the messages sent on a client's mailbox,
  the bytes written to a client's terminal, the replies to requests, and the channels on
  which a command loop was started.
\<close>

fun sent_to :: "cid \<Rightarrow> event list \<Rightarrow> string list" where
  "sent_to c [] = []"
| "sent_to c (MsgSend c' m # evs) = (if c' = c then m # sent_to c evs else sent_to c evs)"
| "sent_to c (ev # evs) = sent_to c evs"

fun written_to :: "cid \<Rightarrow> event list \<Rightarrow> string list" where
  "written_to c [] = []"
| "written_to c (TermWrite c' m # evs) =
     (if c' = c then m # written_to c evs else written_to c evs)"
| "written_to c (ev # evs) = written_to c evs"

fun replies :: "event list \<Rightarrow> bool list" where
  "replies [] = []"
| "replies (Reply ok # evs) = ok # replies evs"
| "replies (ev # evs) = replies evs"

fun spawned :: "event list \<Rightarrow> channel list" where
  "spawned [] = []"
| "spawned (GoHandleShell chan # evs) = chan # spawned evs"
| "spawned (ev # evs) = spawned evs"

section \<open>Two sessions for the worked examples\<close>

text \<open>
  Pointer 1 is bob, who is silenced until instant 5000000000000 while the clock reads
  1000000000000; every other pointer, 0 in the examples, is alice, an operator who is not
  silenced. The registry knows both by name. The example clock library parses and prints only the durations the
  examples use.
\<close>

definition alice :: Client where
  "alice = \<lparr>Name = ''alice'', Op = True,
            terminal = Some \<lparr>term_channel = 1, term_prompt = ''[alice] ''\<rparr>,
            termWidth = 80, termHeight = 24, silencedUntil = 0,
            Conn_ClientVersion = ''SSH-2.0-OpenSSH_6.6'', Conn_fingerprint = ''aa:01''\<rparr>"

definition bob :: Client where
  "bob = \<lparr>Name = ''bob'', Op = False,
          terminal = Some \<lparr>term_channel = 2, term_prompt = ''[bob] ''\<rparr>,
          termWidth = 80, termHeight = 24, silencedUntil = 5000000000000,
          Conn_ClientVersion = ''SSH-2.0-PuTTY'', Conn_fingerprint = ''bb:02''\<rparr>"

definition two_clients :: store where
  "two_clients = (\<lambda>p. if p = 1 then bob else alice)"

definition example_env :: shell_env where
  "example_env =
     \<lparr>Server_IsOp = (\<lambda>p. p = 0),
      Server_Who = (\<lambda>n. if n = ''alice'' then Some 0 else if n = ''bob'' then Some 1 else None),
      Server_List = [''alice'', ''bob''],
      time_Now = 1000000000000,
      time_ParseDuration =
        (\<lambda>s. if s = ''10s'' then Some 10000000000
             else if s = ''-5m'' then Some (- 300000000000) else None),
      Duration_String =
        (\<lambda>d. if d = 10000000000 then ''10s''
             else if d = 300000000000 then ''5m0s''
             else if d = - 300000000000 then ''-5m0s'' else ''?'')\<rparr>"

text \<open>
  An example of the channel side: a parser that reads a width byte and a height byte
  and rejects every other payload, and a terminal that refuses a width above 200.
\<close>

definition example_chan_env :: chan_env where
  "example_chan_env =
     \<lparr>parsePtyRequest =
        (\<lambda>p. case p of [a, b] \<Rightarrow> (int (unat a), int (unat b), True) | _ \<Rightarrow> (0, 0, False)),
      parseWinchRequest =
        (\<lambda>p. case p of [a, b] \<Rightarrow> (int (unat a), int (unat b), True) | _ \<Rightarrow> (0, 0, False)),
      term_SetSize = (\<lambda>width height. if width > 200 then Some ''short write'' else None)\<rparr>"

definition shell_request :: Request where
  "shell_request = \<lparr>Type = ''shell'', Payload = [], WantReply = True\<rparr>"

definition two_channels :: "NewChannel list" where
  "two_channels =
     [\<lparr>ChannelType = ''session'', Accept = Inr (1, [shell_request, shell_request])\<rparr>,
      \<lparr>ChannelType = ''session'', Accept = Inr (2, [shell_request])\<rparr>]"

section \<open>Splitting an input line\<close>

lemma takeWhile_nosep: "sep \<notin> set s \<Longrightarrow> takeWhile (\<lambda>c. c \<noteq> sep) s = s"
  by (induction s) auto

lemma SplitN_first: "SplitN s sep (Suc (Suc n)) ! 0 = takeWhile (\<lambda>c. c \<noteq> sep) s"
  by (simp add: takeWhile_nosep)

lemma SplitN_nosep: "sep \<notin> set a \<Longrightarrow> SplitN a sep (Suc n) = [a]"
  by (cases n) simp_all

lemma SplitN_append:
  assumes "sep \<notin> set a"
  shows "SplitN (a @ sep # r) sep (Suc (Suc n)) = a # SplitN r sep (Suc n)"
proof -
  have "\<forall>x\<in>set a. x \<noteq> sep"
    using assms by auto
  then show ?thesis
    by simp
qed

text \<open>The verb carries the sigil exactly when the line starts with it.\<close>

lemma HasPrefix_first:
  "HasPrefix (SplitN line CHR '' '' 3 ! 0) ''/'' = HasPrefix line ''/''"
  by (cases line) (simp_all add: HasPrefix_def numeral_3_eq_3)

text \<open>
  When the verb is \<open>/me\<close>, the line is \<open>/me\<close> alone or \<open>/me\<close>, a space and more:
  trimming the cutset \<open>/me\<close> from the left stops at that space, so it removes the verb
  and nothing else.
\<close>

lemma first_me:
  assumes "SplitN line CHR '' '' 3 ! 0 = ''/me''"
  shows "line = ''/me'' @ drop 3 line" and "TrimLeft line ''/me'' = drop 3 line"
proof -
  let ?P = "\<lambda>c. c \<noteq> CHR '' ''"
  have tw: "takeWhile ?P line = ''/me''"
    using assms by (simp only: numeral_3_eq_3 SplitN_first)
  have split: "line = ''/me'' @ dropWhile ?P line"
    using takeWhile_dropWhile_id [of ?P line] tw by simp
  then have rest: "dropWhile ?P line = drop 3 line"
    by (metis append_eq_conv_conj length_Cons list.size(3) numeral_3_eq_3)
  show "line = ''/me'' @ drop 3 line"
    using split rest by simp
  have "drop 3 line = [] \<or> hd (drop 3 line) = CHR '' ''"
    using hd_dropWhile [of ?P line] rest by auto
  then have "dropWhile (\<lambda>c. c \<in> set ''/me'') (drop 3 line) = drop 3 line"
    by (cases "drop 3 line") auto
  moreover have "TrimLeft line ''/me'' = dropWhile (\<lambda>c. c \<in> set ''/me'') (drop 3 line)"
    using split rest by (metis TrimLeft_def dropWhile_append2)
  ultimately show "TrimLeft line ''/me'' = drop 3 line"
    by simp
qed

lemma parts2:
  assumes "CHR '' '' \<notin> set verb" and "CHR '' '' \<notin> set name"
  shows "SplitN (verb @ CHR '' '' # name) CHR '' '' 3 = [verb, name]"
proof -
  have "SplitN (verb @ CHR '' '' # name) CHR '' '' (Suc (Suc (Suc 0)))
          = verb # SplitN name CHR '' '' (Suc (Suc 0))"
    by (rule SplitN_append [OF assms(1)])
  also have "SplitN name CHR '' '' (Suc (Suc 0)) = [name]"
    by (rule SplitN_nosep [OF assms(2)])
  finally show ?thesis
    by (simp only: numeral_3_eq_3)
qed

lemma parts3:
  assumes "CHR '' '' \<notin> set verb" and "CHR '' '' \<notin> set name"
  shows "SplitN (verb @ CHR '' '' # name @ CHR '' '' # tok) CHR '' '' 3 = [verb, name, tok]"
proof -
  have "SplitN (verb @ CHR '' '' # name @ CHR '' '' # tok) CHR '' '' (Suc (Suc (Suc 0)))
          = verb # SplitN (name @ CHR '' '' # tok) CHR '' '' (Suc (Suc 0))"
    by (rule SplitN_append [OF assms(1)])
  also have "SplitN (name @ CHR '' '' # tok) CHR '' '' (Suc (Suc 0))
          = name # SplitN tok CHR '' '' (Suc 0)"
    by (rule SplitN_append [OF assms(2)])
  finally show ?thesis
    by (simp only: numeral_3_eq_3 SplitN.simps)
qed

section \<open>Dispatch of the moderation commands\<close>

lemma handleLine_ban:
  assumes "SplitN line CHR '' '' 3 = parts" and "parts ! 0 = ''/ban''"
  shows "handleLine e c chan w line = case_ban e c w parts"
  using assms unfolding handleLine_def Let_def by (simp add: HasPrefix_def)

lemma handleLine_op:
  assumes "SplitN line CHR '' '' 3 = parts" and "parts ! 0 = ''/op''"
  shows "handleLine e c chan w line = case_op e c w parts"
  using assms unfolding handleLine_def Let_def by (simp add: HasPrefix_def)

lemma handleLine_silence:
  assumes "SplitN line CHR '' '' 3 = parts" and "parts ! 0 = ''/silence''"
  shows "handleLine e c chan w line = case_silence e c w parts"
  using assms unfolding handleLine_def Let_def by (simp add: HasPrefix_def)

lemma case_silence_applied:
  assumes "Server_IsOp e c" and "Server_Who e name = Some target"
  shows "case_silence e c w [''/silence'', name, tok] =
           (let d = (case time_ParseDuration e tok of Some p \<Rightarrow> p | None \<Rightarrow> 300000000000)
            in (w(target := (w target)\<lparr>silencedUntil := time_Now e + d\<rparr>),
                [TermWrite target (''-> Silenced for '' @ Duration_String e d @ '' by ''
                                    @ Name (w c) @ ''.'' @ [CHR 0x0D, CHR 0x0A])]))"
    and "case_silence e c w [''/silence'', name] =
           (w(target := (w target)\<lparr>silencedUntil := time_Now e + 300000000000\<rparr>),
            [TermWrite target (''-> Silenced for '' @ Duration_String e 300000000000 @ '' by ''
                                @ Name (w c) @ ''.'' @ [CHR 0x0D, CHR 0x0A])])"
  using assms
  by (simp_all add: case_silence_def Let_def Silence_def Write_def Minute_def
        split: option.split)

lemma case_silence_unparsable:
  assumes "time_ParseDuration e tok = None"
  shows "case_silence e c w [''/silence'', name, tok] = case_silence e c w [''/silence'', name]"
  using assms by (simp add: case_silence_def Let_def split: option.split)

lemma handleLine_silence_applied:
  assumes "Server_IsOp e c"
    and "CHR '' '' \<notin> set name"
    and "Server_Who e name = Some target"
    and "time_ParseDuration e tok = Some d"
  shows "handleLine e c chan w (''/silence '' @ name @ '' '' @ tok) =
           (w(target := (w target)\<lparr>silencedUntil := time_Now e + d\<rparr>),
            [TermWrite target (''-> Silenced for '' @ Duration_String e d @ '' by ''
                                @ Name (w c) @ ''.'' @ [CHR 0x0D, CHR 0x0A])])"
proof -
  have "SplitN (''/silence'' @ CHR '' '' # name @ CHR '' '' # tok) CHR '' '' 3
          = [''/silence'', name, tok]"
    using assms(2) by (intro parts3) simp_all
  then have "handleLine e c chan w (''/silence '' @ name @ '' '' @ tok)
          = case_silence e c w [''/silence'', name, tok]"
    by (intro handleLine_silence) simp_all
  then show ?thesis
    using assms(1,3,4) by (simp add: case_silence_applied(1))
qed

section \<open>The fixed texts, line by line\<close>

lemma sent_to_WriteLines: "sent_to c' (WriteLines c ls) = []"
  by (induction ls) (simp_all add: WriteLines_def Write_def)

lemma Split_HELP_TEXT:
  "Split HELP_TEXT CHR ''\<newline>'' =
     [''-> Available commands:'', ''   /about'', ''   /exit'', ''   /help'', ''   /list'',
      ''   /nick $NAME'', ''   /whois $NAME'', '''']"
  by code_simp

lemma Split_ABOUT_TEXT:
  "Split ABOUT_TEXT CHR ''\<newline>'' =
     [''-> ssh-chat is made by @shazow.'', '''',
      ''   It is a custom ssh server built in Go to serve a chat experience'',
      ''   instead of a shell.'', '''',
      ''   Source: https://github.com/shazow/ssh-chat'', '''',
      ''   For more, visit shazow.net or follow at twitter.com/shazow'', '''']"
  by code_simp

section \<open>Plain chat\<close>

text \<open>
  C1. A line that does not start with the sigil \<open>/\<close> is formatted as \<open>name: text\<close>.
  If the sender is silenced or the formatted message is longer than 1000 bytes, the only
  effect is one send of \<open>-> Message rejected.\<close> on the sender's own mailbox, and
  nothing is broadcast; otherwise the only effect is the broadcast of the message with
  the sender as the excluded session. The store is unchanged either way.
\<close>

theorem chat_line_gate:
  assumes "\<not> HasPrefix line ''/''"
  shows "handleLine e c chan w line =
           (if IsSilenced (w c) (time_Now e) \<or> length (Name (w c) @ '': '' @ line) > 1000
            then (w, [MsgSend c ''-> Message rejected.''])
            else (w, [Broadcast (Name (w c) @ '': '' @ line) (Some c)]))"
  using assms unfolding handleLine_def Let_def HasPrefix_first by simp

text \<open>
  Alice, not silenced, says hello; alice sends 994 letters, which makes 1001 bytes
  with her name; bob, who is silenced, says hello.
\<close>

theorem chat_line_gate_witness:
  "\<not> HasPrefix ''hello there'' ''/''
   \<and> handleLine example_env 0 7 two_clients ''hello there''
       = (two_clients, [Broadcast ''alice: hello there'' (Some 0)])
   \<and> \<not> HasPrefix (replicate 994 CHR ''a'') ''/''
   \<and> handleLine example_env 0 7 two_clients (replicate 994 CHR ''a'')
       = (two_clients, [MsgSend 0 ''-> Message rejected.''])
   \<and> handleLine example_env 1 7 two_clients ''hello there''
       = (two_clients, [MsgSend 1 ''-> Message rejected.''])"
  using chat_line_gate [of "''hello there''" example_env 0 7 two_clients]
    chat_line_gate [of "replicate 994 CHR ''a''" example_env 0 7 two_clients]
    chat_line_gate [of "''hello there''" example_env 1 7 two_clients]
  by (simp add: HasPrefix_def IsSilenced_def two_clients_def alice_def bob_def example_env_def)

section \<open>The action line\<close>

text \<open>
  C9. When the verb is \<open>/me\<close>, the action line is \<open>** name\<close> followed by what is
  left of the input line after the verb, or by \<open> is at a loss for words.\<close> when nothing
  is left. It passes the same gate as plain chat: if the sender is silenced or the line is
  longer than 1000 bytes the only effect is the rejection notice on the sender's own
  mailbox; otherwise the line is broadcast with no session excluded, so the sender
  receives it too.
\<close>

theorem me_action_line:
  assumes "SplitN line CHR '' '' 3 ! 0 = ''/me''"
  shows "line = ''/me'' @ drop 3 line
         \<and> handleLine e c chan w line =
             (let text = (if drop 3 line = [] then '' is at a loss for words.'' else drop 3 line);
                  msg = ''** '' @ Name (w c) @ text
              in if IsSilenced (w c) (time_Now e) \<or> length msg > 1000
                 then (w, [MsgSend c ''-> Message rejected.''])
                 else (w, [Broadcast msg None]))"
proof -
  have "HasPrefix (SplitN line CHR '' '' 3 ! 0) ''/''"
    using assms by (simp add: HasPrefix_def)
  then have "handleLine e c chan w line = case_me e c w line"
    using assms unfolding handleLine_def Let_def by simp
  then show ?thesis
    using first_me [OF assms] by (simp add: case_me_def Let_def)
qed

theorem me_action_line_witness:
  "SplitN ''/me'' CHR '' '' 3 ! 0 = ''/me''
   \<and> handleLine example_env 0 7 two_clients ''/me''
       = (two_clients, [Broadcast ''** alice is at a loss for words.'' None])
   \<and> SplitN ''/me waves to everyone'' CHR '' '' 3 ! 0 = ''/me''
   \<and> handleLine example_env 0 7 two_clients ''/me waves to everyone''
       = (two_clients, [Broadcast ''** alice waves to everyone'' None])
   \<and> handleLine example_env 1 7 two_clients ''/me waves to everyone''
       = (two_clients, [MsgSend 1 ''-> Message rejected.''])"
  using me_action_line [of "''/me''" example_env 0 7 two_clients]
    me_action_line [of "''/me waves to everyone''" example_env 0 7 two_clients]
    me_action_line [of "''/me waves to everyone''" example_env 1 7 two_clients]
  by (simp add: numeral_3_eq_3 IsSilenced_def two_clients_def alice_def bob_def example_env_def)

section \<open>Help and about\<close>

text \<open>
  C4 says that \<open>/help\<close> puts the help text on the session's own mailbox. The code calls
  \<open>WriteLines\<close>: for alice's \<open>/help\<close> nothing is sent on her mailbox, and the eight
  pieces of the help text (the last one empty, after the final newline) are written to
  her terminal.
\<close>

theorem help_mailbox_counterexample:
  "sent_to 0 (snd (handleLine example_env 0 7 two_clients ''/help'')) = []
   \<and> written_to 0 (snd (handleLine example_env 0 7 two_clients ''/help'')) =
       [''-> Available commands:'' @ [CHR 0x0D, CHR 0x0A],
        ''   /about'' @ [CHR 0x0D, CHR 0x0A],
        ''   /exit'' @ [CHR 0x0D, CHR 0x0A],
        ''   /help'' @ [CHR 0x0D, CHR 0x0A],
        ''   /list'' @ [CHR 0x0D, CHR 0x0A],
        ''   /nick $NAME'' @ [CHR 0x0D, CHR 0x0A],
        ''   /whois $NAME'' @ [CHR 0x0D, CHR 0x0A],
        [CHR 0x0D, CHR 0x0A]]"
  by code_simp

text \<open>
  C4, amended. \<open>/help\<close> writes the fixed help text, and \<open>/about\<close> the fixed about text,
  to the session's own terminal: one write per piece of the text between newlines, each
  followed by carriage return and line feed. Nothing is sent on any mailbox and the store
  is unchanged.
\<close>

theorem help_about_written_to_terminal:
  "(SplitN line CHR '' '' 3 ! 0 = ''/help'' \<longrightarrow>
      handleLine e c chan w line =
        (w, map (\<lambda>l. TermWrite c (l @ [CHR 0x0D, CHR 0x0A]))
              [''-> Available commands:'', ''   /about'', ''   /exit'', ''   /help'',
               ''   /list'', ''   /nick $NAME'', ''   /whois $NAME'', '''']))
   \<and> (SplitN line CHR '' '' 3 ! 0 = ''/about'' \<longrightarrow>
      handleLine e c chan w line =
        (w, map (\<lambda>l. TermWrite c (l @ [CHR 0x0D, CHR 0x0A]))
              [''-> ssh-chat is made by @shazow.'', '''',
               ''   It is a custom ssh server built in Go to serve a chat experience'',
               ''   instead of a shell.'', '''',
               ''   Source: https://github.com/shazow/ssh-chat'', '''',
               ''   For more, visit shazow.net or follow at twitter.com/shazow'', '''']))
   \<and> (SplitN line CHR '' '' 3 ! 0 \<in> {''/help'', ''/about''} \<longrightarrow>
      sent_to c' (snd (handleLine e c chan w line)) = [])"
proof -
  have wl: "WriteLines c ls = map (\<lambda>l. TermWrite c (l @ [CHR 0x0D, CHR 0x0A])) ls" for ls
    by (induction ls) (simp_all add: WriteLines_def Write_def)
  have h: "handleLine e c chan w line = (w, WriteLines c (Split HELP_TEXT CHR ''\<newline>''))"
    if "SplitN line CHR '' '' 3 ! 0 = ''/help''"
    using that unfolding handleLine_def Let_def by (simp add: HasPrefix_def)
  have a: "handleLine e c chan w line = (w, WriteLines c (Split ABOUT_TEXT CHR ''\<newline>''))"
    if "SplitN line CHR '' '' 3 ! 0 = ''/about''"
    using that unfolding handleLine_def Let_def by (simp add: HasPrefix_def)
  have m: "sent_to c' (snd (handleLine e c chan w line)) = []"
    if "SplitN line CHR '' '' 3 ! 0 \<in> {''/help'', ''/about''}"
    using that h a by (auto simp only: sent_to_WriteLines snd_conv)
  show ?thesis
    using h a m by (simp only: Split_HELP_TEXT Split_ABOUT_TEXT wl) blast
qed

theorem help_about_written_to_terminal_witness:
  "SplitN ''/help'' CHR '' '' 3 ! 0 = ''/help''
   \<and> SplitN ''/about now'' CHR '' '' 3 ! 0 = ''/about''
   \<and> sent_to 0 (snd (handleLine example_env 0 7 two_clients ''/help'')) = []
   \<and> sent_to 1 (snd (handleLine example_env 1 7 two_clients ''/about now'')) = []
   \<and> snd (handleLine example_env 0 7 two_clients ''/help'') =
       map (\<lambda>l. TermWrite 0 (l @ [CHR 0x0D, CHR 0x0A]))
         [''-> Available commands:'', ''   /about'', ''   /exit'', ''   /help'',
          ''   /list'', ''   /nick $NAME'', ''   /whois $NAME'', '''']"
  using help_about_written_to_terminal [of "''/help''" example_env 0 7 two_clients 0]
    help_about_written_to_terminal [of "''/about now''" example_env 1 7 two_clients 1]
  by (simp add: numeral_3_eq_3)

section \<open>Silencing\<close>

text \<open>
  C7. Whatever the client's state was, \<open>Silence\<close> with duration \<open>d\<close> at clock reading
  \<open>now\<close> leaves \<open>silencedUntil = now + d\<close>. A second call overwrites the first: the
  result is the same as if the first call had not happened. So a call whose expiry
  \<open>now2 + d2\<close> lies before the expiry \<open>now1 + d1\<close> of an earlier call shortens the
  silence: at an instant between the two expiries the client was silenced after the
  first call and is not silenced after the second.
\<close>

theorem Silence_overwrites:
  "silencedUntil (Silence c d now) = now + d
   \<and> Silence (Silence c d1 now1) d2 now2 = Silence c d2 now2
   \<and> (now2 + d2 \<le> t \<and> t < now1 + d1 \<longrightarrow>
        IsSilenced (Silence c d1 now1) t
        \<and> \<not> IsSilenced (Silence (Silence c d1 now1) d2 now2) t)"
  by (simp add: Silence_def IsSilenced_def)

theorem Silence_overwrites_witness:
  "(5 + 60 \<le> (120::int) \<and> (120::int) < 0 + 600)
   \<and> silencedUntil (Silence bob 60 5) = 65
   \<and> silencedUntil (Silence (Silence bob 600 0) 60 5) = 65
   \<and> IsSilenced (Silence bob 600 0) 120
   \<and> \<not> IsSilenced (Silence (Silence bob 600 0) 60 5) 120"
  using Silence_overwrites [of bob 60 5 600 0 60 5 120]
    Silence_overwrites [of bob 600 0 600 0 60 5 120]
  by simp

text \<open>
  C3 says that the notice of a \<open>/silence\<close> reaches the target's mailbox. The code calls
  the target's \<open>Write\<close>: when alice, an operator, enters \<open>/silence bob 10s\<close>, nothing is
  sent on bob's mailbox and the notice is written to bob's terminal.
\<close>

theorem silence_notice_counterexample:
  "sent_to 1 (snd (handleLine example_env 0 7 two_clients ''/silence bob 10s'')) = []
   \<and> written_to 1 (snd (handleLine example_env 0 7 two_clients ''/silence bob 10s''))
       = [''-> Silenced for 10s by alice.'' @ [CHR 0x0D, CHR 0x0A]]"
  by code_simp

text \<open>
  C3, amended. When an operator enters \<open>/silence NAME DURATION\<close>, the registry knows the
  name and the duration token parses to \<open>d\<close>, the target's \<open>silencedUntil\<close> becomes
  \<open>now + d\<close> and the only effect is one write to the target's terminal, of
  \<open>-> Silenced for <d> by <operator>.\<close> followed by carriage return and line feed,
  where \<open><d>\<close> is the duration as package \<open>time\<close> prints it. Nothing is sent on a
  mailbox.
\<close>

theorem silence_sets_expiry_and_writes_notice:
  assumes "Server_IsOp e c"
    and "CHR '' '' \<notin> set name"
    and "Server_Who e name = Some target"
    and "time_ParseDuration e tok = Some d"
  shows "handleLine e c chan w (''/silence '' @ name @ '' '' @ tok) =
           (w(target := (w target)\<lparr>silencedUntil := time_Now e + d\<rparr>),
            [TermWrite target (''-> Silenced for '' @ Duration_String e d @ '' by ''
                                @ Name (w c) @ ''.'' @ [CHR 0x0D, CHR 0x0A])])"
  using assms by (rule handleLine_silence_applied)

theorem silence_sets_expiry_and_writes_notice_witness:
  "Server_IsOp example_env 0 \<and> CHR '' '' \<notin> set ''bob''
   \<and> Server_Who example_env ''bob'' = Some 1
   \<and> time_ParseDuration example_env ''10s'' = Some 10000000000
   \<and> silencedUntil (fst (handleLine example_env 0 7 two_clients ''/silence bob 10s'') 1)
       = 1000000000000 + 10000000000
   \<and> snd (handleLine example_env 0 7 two_clients ''/silence bob 10s'')
       = [TermWrite 1 (''-> Silenced for 10s by alice.'' @ [CHR 0x0D, CHR 0x0A])]"
  using silence_sets_expiry_and_writes_notice
          [of example_env 0 "''bob''" 1 "''10s''" 10000000000 7 two_clients]
  by (simp add: example_env_def two_clients_def alice_def bob_def)

text \<open>
  C8. With no duration token, or with one that package \<open>time\<close> cannot parse, the window
  is the default of five minutes: a \<open>/silence\<close> with an unparsable token has the same
  result, store and effects, as the same command without the token, whoever issues it.
  For an operator and a known name that result is the target silenced until now plus
  300000000000 nanoseconds and the one notice on the target's terminal; no error is
  reported to the issuer.
\<close>

theorem silence_default_duration:
  assumes "CHR '' '' \<notin> set name" and "time_ParseDuration e tok = None"
  shows "handleLine e c chan w (''/silence '' @ name @ '' '' @ tok)
           = handleLine e c chan w (''/silence '' @ name)
         \<and> (Server_IsOp e c \<and> Server_Who e name = Some target \<longrightarrow>
              handleLine e c chan w (''/silence '' @ name) =
                (w(target := (w target)\<lparr>silencedUntil := time_Now e + 5 * Minute\<rparr>),
                 [TermWrite target (''-> Silenced for '' @ Duration_String e (5 * Minute)
                                     @ '' by '' @ Name (w c) @ ''.'' @ [CHR 0x0D, CHR 0x0A])]))
         \<and> 5 * Minute = 300000000000"
proof -
  have "SplitN (''/silence'' @ CHR '' '' # name @ CHR '' '' # tok) CHR '' '' 3
          = [''/silence'', name, tok]"
    using assms(1) by (intro parts3) simp_all
  then have long: "handleLine e c chan w (''/silence '' @ name @ '' '' @ tok)
          = case_silence e c w [''/silence'', name, tok]"
    by (intro handleLine_silence) simp_all
  have "SplitN (''/silence'' @ CHR '' '' # name) CHR '' '' 3 = [''/silence'', name]"
    using assms(1) by (intro parts2) simp_all
  then have short: "handleLine e c chan w (''/silence '' @ name)
          = case_silence e c w [''/silence'', name]"
    by (intro handleLine_silence) simp_all
  have same: "handleLine e c chan w (''/silence '' @ name @ '' '' @ tok)
           = handleLine e c chan w (''/silence '' @ name)"
    using long short case_silence_unparsable [OF assms(2)] by simp
  show ?thesis
    using same short by (simp add: case_silence_applied(2) Minute_def)
qed

theorem silence_default_duration_witness:
  "CHR '' '' \<notin> set ''bob'' \<and> time_ParseDuration example_env ''abc123'' = None
   \<and> Server_IsOp example_env 0 \<and> Server_Who example_env ''bob'' = Some 1
   \<and> handleLine example_env 0 7 two_clients ''/silence bob abc123''
       = handleLine example_env 0 7 two_clients ''/silence bob''
   \<and> silencedUntil (fst (handleLine example_env 0 7 two_clients ''/silence bob abc123'') 1)
       = 1000000000000 + 300000000000
   \<and> snd (handleLine example_env 0 7 two_clients ''/silence bob abc123'')
       = [TermWrite 1 (''-> Silenced for 5m0s by alice.'' @ [CHR 0x0D, CHR 0x0A])]"
  using silence_default_duration [of "''bob''" example_env "''abc123''" 0 7 two_clients 1]
  by (simp add: example_env_def two_clients_def alice_def bob_def)

text \<open>
  C10. For a duration \<open>d \<le> 0\<close>, the client is not silenced at any clock reading that is
  not before the reading \<open>Silence\<close> took. The duration token of \<open>/silence\<close> is whatever
  package \<open>time\<close> parses, with no sign check: when the token parses to such a \<open>d\<close>, an
  operator's \<open>/silence\<close> leaves the target not silenced, whatever window was in force.
\<close>

theorem nonpositive_silence_ends_window:
  "(d \<le> 0 \<and> now \<le> now' \<longrightarrow> \<not> IsSilenced (Silence c d now) now')
   \<and> (Server_IsOp e issuer \<and> CHR '' '' \<notin> set name \<and> Server_Who e name = Some target
        \<and> time_ParseDuration e tok = Some d \<and> d \<le> 0 \<and> time_Now e \<le> now' \<longrightarrow>
      \<not> IsSilenced
          (fst (handleLine e issuer chan w (''/silence '' @ name @ '' '' @ tok)) target) now')"
proof -
  have 1: "\<not> IsSilenced (Silence c d now) now'" if "d \<le> 0" and "now \<le> now'"
    using that by (simp add: IsSilenced_def Silence_def)
  have 2: "\<not> IsSilenced
          (fst (handleLine e issuer chan w (''/silence '' @ name @ '' '' @ tok)) target) now'"
    if "Server_IsOp e issuer" and "CHR '' '' \<notin> set name" and "Server_Who e name = Some target"
      and "time_ParseDuration e tok = Some d" and "d \<le> 0" and "time_Now e \<le> now'"
    using handleLine_silence_applied [OF that(1-4)] that(5,6)
    by (simp add: IsSilenced_def)
  show ?thesis
    using 1 2 by blast
qed

theorem nonpositive_silence_ends_window_witness:
  "Server_IsOp example_env 0 \<and> CHR '' '' \<notin> set ''bob''
   \<and> Server_Who example_env ''bob'' = Some 1
   \<and> time_ParseDuration example_env ''-5m'' = Some (- 300000000000)
   \<and> time_Now example_env \<le> 1000000000001
   \<and> IsSilenced (two_clients 1) 1000000000001
   \<and> \<not> IsSilenced
         (fst (handleLine example_env 0 7 two_clients ''/silence bob -5m'') 1) 1000000000001
   \<and> \<not> IsSilenced (Silence bob 0 1000000000001) 1000000000001"
  using nonpositive_silence_ends_window
          [of "- 300000000000" 0 1000000000001 bob example_env 0 "''bob''" 1 "''-5m''"
              7 two_clients]
    nonpositive_silence_ends_window
          [of 0 1000000000001 1000000000001 bob example_env 0 "''bob''" 1 "''-5m''"
              7 two_clients]
  by (simp add: example_env_def two_clients_def bob_def IsSilenced_def)

section \<open>Moderation commands: the order of the checks\<close>

text \<open>
  C5. For \<open>/ban\<close>, \<open>/op\<close> and \<open>/silence\<close> the operator check comes first: a
  non-operator gets the denial notice whatever the arguments are. The argument count is
  checked next (exactly one argument for \<open>/ban\<close> and \<open>/op\<close>, at least one for
  \<open>/silence\<close>), before the name is looked up; an unknown name is reported last. In each
  of the three failures the store is unchanged and the only effect is the one notice on
  the issuer's mailbox, so no ban, no grant, no silence and no write to a target happens;
  the three notices differ from each other.
\<close>

theorem moderation_checks_in_order:
  assumes "parts = SplitN line CHR '' '' 3"
  shows
    "(parts ! 0 \<in> {''/ban'', ''/op'', ''/silence''} \<and> \<not> Server_IsOp e c \<longrightarrow>
        handleLine e c chan w line = (w, [MsgSend c ''-> You're not an admin.'']))
     \<and> (parts ! 0 \<in> {''/ban'', ''/op''} \<and> Server_IsOp e c \<and> length parts \<noteq> 2 \<longrightarrow>
        handleLine e c chan w line =
          (w, [MsgSend c (''-> Missing $NAME from: '' @ parts ! 0 @ '' $NAME'')]))
     \<and> (parts ! 0 = ''/silence'' \<and> Server_IsOp e c \<and> length parts < 2 \<longrightarrow>
        handleLine e c chan w line =
          (w, [MsgSend c ''-> Missing $NAME from: /silence $NAME'']))
     \<and> (parts ! 0 \<in> {''/ban'', ''/op''} \<and> Server_IsOp e c \<and> length parts = 2
          \<and> Server_Who e (parts ! 1) = None \<longrightarrow>
        handleLine e c chan w line = (w, [MsgSend c (''-> No such name: '' @ parts ! 1)]))
     \<and> (parts ! 0 = ''/silence'' \<and> Server_IsOp e c \<and> length parts \<ge> 2
          \<and> Server_Who e (parts ! 1) = None \<longrightarrow>
        handleLine e c chan w line = (w, [MsgSend c (''-> No such name: '' @ parts ! 1)]))
     \<and> ''-> You're not an admin.'' \<noteq> ''-> Missing $NAME from: '' @ parts ! 0 @ '' $NAME''
     \<and> ''-> You're not an admin.'' \<noteq> ''-> No such name: '' @ parts ! 1
     \<and> ''-> Missing $NAME from: '' @ parts ! 0 @ '' $NAME'' \<noteq> ''-> No such name: '' @ parts ! 1"
proof -
  have b: "handleLine e c chan w line = case_ban e c w parts" if "parts ! 0 = ''/ban''"
    using assms that by (intro handleLine_ban) simp_all
  have o: "handleLine e c chan w line = case_op e c w parts" if "parts ! 0 = ''/op''"
    using assms that by (intro handleLine_op) simp_all
  have s: "handleLine e c chan w line = case_silence e c w parts" if "parts ! 0 = ''/silence''"
    using assms that by (intro handleLine_silence) simp_all
  have 1: "handleLine e c chan w line = (w, [MsgSend c ''-> You're not an admin.''])"
    if "parts ! 0 \<in> {''/ban'', ''/op'', ''/silence''}" and "\<not> Server_IsOp e c"
    using that b o s by (auto simp: case_ban_def case_op_def case_silence_def)
  have 2: "handleLine e c chan w line =
          (w, [MsgSend c (''-> Missing $NAME from: '' @ parts ! 0 @ '' $NAME'')])"
    if "parts ! 0 \<in> {''/ban'', ''/op''}" and "Server_IsOp e c" and "length parts \<noteq> 2"
    using that b o by (auto simp: case_ban_def case_op_def)
  have 3: "handleLine e c chan w line =
          (w, [MsgSend c ''-> Missing $NAME from: /silence $NAME''])"
    if "parts ! 0 = ''/silence''" and "Server_IsOp e c" and "length parts < 2"
    using that s by (simp add: case_silence_def)
  have 4: "handleLine e c chan w line = (w, [MsgSend c (''-> No such name: '' @ parts ! 1)])"
    if "parts ! 0 \<in> {''/ban'', ''/op''}" and "Server_IsOp e c" and "length parts = 2"
      and "Server_Who e (parts ! 1) = None"
    using that b o by (auto simp: case_ban_def case_op_def)
  have 5: "handleLine e c chan w line = (w, [MsgSend c (''-> No such name: '' @ parts ! 1)])"
    if "parts ! 0 = ''/silence''" and "Server_IsOp e c" and "length parts \<ge> 2"
      and "Server_Who e (parts ! 1) = None"
    using that s by (simp add: case_silence_def Let_def)
  have 6: "''-> You're not an admin.'' \<noteq> ''-> Missing $NAME from: '' @ parts ! 0 @ '' $NAME''"
    "''-> You're not an admin.'' \<noteq> ''-> No such name: '' @ parts ! 1"
    "''-> Missing $NAME from: '' @ parts ! 0 @ '' $NAME'' \<noteq> ''-> No such name: '' @ parts ! 1"
    by simp_all
  show ?thesis
    using 1 2 3 4 5 6 by blast
qed

theorem moderation_checks_in_order_witness:
  "handleLine example_env 1 7 two_clients ''/ban alice''
       = (two_clients, [MsgSend 1 ''-> You're not an admin.''])
   \<and> handleLine example_env 1 7 two_clients ''/silence''
       = (two_clients, [MsgSend 1 ''-> You're not an admin.''])
   \<and> handleLine example_env 0 7 two_clients ''/op''
       = (two_clients, [MsgSend 0 ''-> Missing $NAME from: /op $NAME''])
   \<and> handleLine example_env 0 7 two_clients ''/ban carol now''
       = (two_clients, [MsgSend 0 ''-> Missing $NAME from: /ban $NAME''])
   \<and> handleLine example_env 0 7 two_clients ''/silence''
       = (two_clients, [MsgSend 0 ''-> Missing $NAME from: /silence $NAME''])
   \<and> handleLine example_env 0 7 two_clients ''/ban carol''
       = (two_clients, [MsgSend 0 ''-> No such name: carol''])
   \<and> handleLine example_env 0 7 two_clients ''/silence carol 10s''
       = (two_clients, [MsgSend 0 ''-> No such name: carol''])"
  using moderation_checks_in_order [OF refl, of "''/ban alice''" example_env 1 7 two_clients]
    moderation_checks_in_order [OF refl, of "''/silence''" example_env 1 7 two_clients]
    moderation_checks_in_order [OF refl, of "''/op''" example_env 0 7 two_clients]
    moderation_checks_in_order [OF refl, of "''/ban carol now''" example_env 0 7 two_clients]
    moderation_checks_in_order [OF refl, of "''/silence''" example_env 0 7 two_clients]
    moderation_checks_in_order [OF refl, of "''/ban carol''" example_env 0 7 two_clients]
    moderation_checks_in_order [OF refl, of "''/silence carol 10s''" example_env 0 7 two_clients]
  by (simp add: numeral_3_eq_3 example_env_def)

section \<open>Channel requests\<close>

text \<open>
  The flag \<open>hasShell\<close> and the command loops started: a request starts at most one loop,
  and none once the flag is set; the flag is set afterwards exactly when it was set before
  or a loop was started. The same holds for a channel's requests and for the loop over the
  channels, which hands the flag from one channel to the next.
\<close>

lemma spawned_append: "spawned (xs @ ys) = spawned xs @ spawned ys"
  by (induction xs rule: spawned.induct) simp_all

lemma spawned_ChannelClose: "spawned (map ChannelClose chans) = []"
  by (induction chans) simp_all

lemma handleRequest_guard:
  assumes "handleRequest e chan (c, hs) req = ((c', hs'), evs)"
  shows "length (spawned evs) \<le> (if hs then 0 else 1) \<and> hs' = (hs \<or> spawned evs \<noteq> [])"
  using assms
  by (auto simp: handleRequest_def Resize_def Let_def
      split: if_splits prod.splits option.splits)

lemma guard_compose:
  assumes "length s1 \<le> (if hs then 0 else 1) \<and> hs' = (hs \<or> s1 \<noteq> [])"
    and "length s2 \<le> (if hs' then 0 else 1) \<and> hs'' = (hs' \<or> s2 \<noteq> [])"
  shows "length (s1 @ s2) \<le> (if hs then 0 else (1::nat)) \<and> hs'' = (hs \<or> s1 @ s2 \<noteq> [])"
  using assms by (cases hs; cases "s1 = []") auto

lemma handleRequests_guard:
  "handleRequests e chan (c, hs) requests = ((c', hs'), evs) \<Longrightarrow>
     length (spawned evs) \<le> (if hs then 0 else 1) \<and> hs' = (hs \<or> spawned evs \<noteq> [])"
proof (induction requests arbitrary: c hs c' hs' evs)
  case Nil
  then show ?case by simp
next
  case (Cons req requests)
  obtain c1 hs1 evs1 where one: "handleRequest e chan (c, hs) req = ((c1, hs1), evs1)"
    by (metis surj_pair)
  obtain c2 hs2 evs2 where rest: "handleRequests e chan (c1, hs1) requests = ((c2, hs2), evs2)"
    by (metis surj_pair)
  have res: "c' = c2" "hs' = hs2" "evs = evs1 @ evs2"
    using Cons.prems one rest by simp_all
  show ?case
    unfolding res spawned_append
    by (rule guard_compose [OF handleRequest_guard [OF one] Cons.IH [OF rest]])
qed

lemma channelsLoop_guard:
  "channelsLoop e prompt (c, hs) channels = ((c', hs'), evs, deferred) \<Longrightarrow>
     length (spawned evs) \<le> (if hs then 0 else 1) \<and> hs' = (hs \<or> spawned evs \<noteq> [])"
proof (induction channels arbitrary: c hs c' hs' evs deferred)
  case Nil
  then show ?case by simp
next
  case (Cons ch channels)
  show ?case
  proof (cases "ChannelType ch \<noteq> ''session''")
    case True
    obtain c2 hs2 evs2 d2 where rest: "channelsLoop e prompt (c, hs) channels = ((c2, hs2), evs2, d2)"
      by (metis surj_pair)
    have "hs' = hs2" "spawned evs = spawned evs2"
      using Cons.prems True rest by auto
    then show ?thesis
      using Cons.IH [OF rest] by simp
  next
    case session: False
    show ?thesis
    proof (cases "Accept ch")
      case (Inl err)
      obtain c2 hs2 evs2 d2 where rest: "channelsLoop e prompt (c, hs) channels = ((c2, hs2), evs2, d2)"
        by (metis surj_pair)
      have "hs' = hs2" "spawned evs = spawned evs2"
        using Cons.prems session Inl rest by auto
      then show ?thesis
        using Cons.IH [OF rest] by simp
    next
      case (Inr acc)
      obtain chan requests where acc: "acc = (chan, requests)"
        by (cases acc)
      let ?c = "c\<lparr>terminal := Some \<lparr>term_channel = chan, term_prompt = prompt\<rparr>\<rparr>"
      obtain c1 hs1 evs1 where one: "handleRequests e chan (?c, hs) requests = ((c1, hs1), evs1)"
        by (metis surj_pair)
      obtain c2 hs2 evs2 d2 where rest: "channelsLoop e prompt (c1, hs1) channels = ((c2, hs2), evs2, d2)"
        by (metis surj_pair)
      have res: "hs' = hs2" "evs = evs1 @ evs2"
        using Cons.prems session Inr acc one rest by simp_all
      show ?thesis
        unfolding res spawned_append
        by (rule guard_compose [OF handleRequests_guard [OF one] Cons.IH [OF rest]])
    qed
  qed
qed

lemma handleChannels_one_shell: "length (spawned (snd (handleChannels e c channels))) \<le> 1"
proof -
  obtain c2 hs2 evs2 d2 where
    loop: "channelsLoop e (''['' @ Name c @ ''] '') (c, False) channels = ((c2, hs2), evs2, d2)"
    by (metis surj_pair)
  have "snd (handleChannels e c channels) = evs2 @ map ChannelClose d2"
    using loop by (simp add: handleChannels_def)
  then show ?thesis
    using channelsLoop_guard [OF loop] by (simp add: spawned_append spawned_ChannelClose)
qed

lemma channelsLoop_after_shell:
  "spawned (fst (snd (channelsLoop e prompt (c, True) channels))) = []"
proof -
  obtain c2 hs2 evs2 d2 where
    loop: "channelsLoop e prompt (c, True) channels = ((c2, hs2), evs2, d2)"
    by (metis surj_pair)
  show ?thesis
    using channelsLoop_guard [OF loop] loop by simp
qed

lemma replies_append: "replies (xs @ ys) = replies xs @ replies ys"
  by (induction xs rule: replies.induct) simp_all

text \<open>
  C2 says that the guard is per channel, so that a second channel of the connection
  starts a command loop of its own. In the code \<open>hasShell\<close> is declared before the loop
  over the channels: when the first channel asks for a shell twice and a second channel
  asks once, only the first request starts a loop, and the second channel's request is
  answered with \<open>false\<close>.
\<close>

theorem shell_guard_per_channel_counterexample:
  "spawned (snd (handleChannels example_chan_env alice two_channels)) = [1]
   \<and> replies (snd (handleChannels example_chan_env alice two_channels)) = [True, False, False]
   \<and> snd (handleChannels example_chan_env alice two_channels) =
       [GoHandleShell 1, Reply True, Reply False, Reply False, ChannelClose 2, ChannelClose 1]"
  by code_simp

text \<open>
  C2, amended. The one-shot guard belongs to the connection's \<open>handleChannels\<close>, not to
  a channel: over all the channels of a connection at most one command loop is started,
  and once one has been started no channel offered later starts another. A \<open>shell\<close>
  request that finds the flag clear (and the terminal in place) starts the loop on its
  channel, sets the flag and is answered with success when a reply is wanted; a \<open>shell\<close>
  request that finds the flag set, on whichever channel, changes nothing and is answered
  with \<open>false\<close> when a reply is wanted.
\<close>

theorem shell_guard_connection_scoped:
  "length (spawned (snd (handleChannels e c channels))) \<le> 1
   \<and> spawned (fst (snd (channelsLoop e prompt (c, True) channels))) = []
   \<and> (Type req = ''shell'' \<and> terminal c \<noteq> None \<longrightarrow>
        handleRequest e chan (c, False) req =
          ((c, True), GoHandleShell chan # (if WantReply req then [Reply True] else [])))
   \<and> (Type req = ''shell'' \<longrightarrow>
        handleRequest e chan (c, True) req =
          ((c, True), if WantReply req then [Reply False] else []))"
proof -
  have first: "handleRequest e chan (c, False) req =
          ((c, True), GoHandleShell chan # (if WantReply req then [Reply True] else []))"
    if "Type req = ''shell''" and "terminal c \<noteq> None"
    using that by (simp add: handleRequest_def)
  have later: "handleRequest e chan (c, True) req =
          ((c, True), if WantReply req then [Reply False] else [])"
    if "Type req = ''shell''"
    using that by (simp add: handleRequest_def)
  show ?thesis
    using handleChannels_one_shell [of e c channels] channelsLoop_after_shell [of e prompt c channels]
      first later
    by blast
qed

theorem shell_guard_connection_scoped_witness:
  "length (spawned (snd (handleChannels example_chan_env alice two_channels))) \<le> 1
   \<and> Type shell_request = ''shell'' \<and> terminal alice \<noteq> None
   \<and> handleRequest example_chan_env 2 (alice, False) shell_request =
       ((alice, True), [GoHandleShell 2, Reply True])
   \<and> handleRequest example_chan_env 2 (alice, True) shell_request =
       ((alice, True), [Reply False])"
  using shell_guard_connection_scoped
          [of example_chan_env alice two_channels "''[alice] ''" shell_request 2]
  by (simp add: shell_request_def alice_def)

text \<open>
  C6. For a \<open>pty-req\<close> or \<open>window-change\<close> request whose payload the parser of its
  type reads as \<open>(width, height, ok)\<close>: when a reply is wanted there is exactly one, and
  it is success exactly when \<open>ok\<close> holds and \<open>SetSize\<close> returns no error. A payload
  the parser rejects (\<open>ok\<close> false), and likewise a failing \<open>SetSize\<close>, leaves the
  client, so its stored width and height, unchanged; otherwise the client's width and
  height become the parsed ones. The flag \<open>hasShell\<close> is untouched and no loop starts.
\<close>

theorem geometry_request_reply:
  assumes "Type req = ''pty-req'' \<and> parsePtyRequest e (Payload req) = (width, height, ok)
           \<or> Type req = ''window-change''
             \<and> parseWinchRequest e (Payload req) = (width, height, ok)"
  shows "replies (snd (handleRequest e chan (c, hasShell) req)) =
           (if WantReply req then [ok \<and> term_SetSize e width height = None] else [])
         \<and> fst (handleRequest e chan (c, hasShell) req) =
           (if ok \<and> term_SetSize e width height = None
            then (c\<lparr>termWidth := width, termHeight := height\<rparr>, hasShell)
            else (c, hasShell))
         \<and> spawned (snd (handleRequest e chan (c, hasShell) req)) = []"
  using assms
  by (auto simp: handleRequest_def Resize_def Let_def replies_append spawned_append
      split: option.splits)

theorem geometry_request_reply_witness:
  "replies (snd (handleRequest example_chan_env 1 (alice, False)
       \<lparr>Type = ''pty-req'', Payload = [120], WantReply = True\<rparr>)) = [False]
   \<and> fst (handleRequest example_chan_env 1 (alice, False)
       \<lparr>Type = ''pty-req'', Payload = [120], WantReply = True\<rparr>) = (alice, False)
   \<and> replies (snd (handleRequest example_chan_env 1 (alice, False)
       \<lparr>Type = ''pty-req'', Payload = [120, 40], WantReply = True\<rparr>)) = [True]
   \<and> fst (handleRequest example_chan_env 1 (alice, False)
       \<lparr>Type = ''pty-req'', Payload = [120, 40], WantReply = True\<rparr>)
       = (alice\<lparr>termWidth := 120, termHeight := 40\<rparr>, False)
   \<and> replies (snd (handleRequest example_chan_env 1 (alice, False)
       \<lparr>Type = ''window-change'', Payload = [220, 40], WantReply = True\<rparr>)) = [False]
   \<and> fst (handleRequest example_chan_env 1 (alice, False)
       \<lparr>Type = ''window-change'', Payload = [220, 40], WantReply = True\<rparr>) = (alice, False)"
proof -
  let ?short = "\<lparr>Type = ''pty-req'', Payload = [120], WantReply = True\<rparr>"
  let ?good = "\<lparr>Type = ''pty-req'', Payload = [120, 40], WantReply = True\<rparr>"
  let ?wide = "\<lparr>Type = ''window-change'', Payload = [220, 40], WantReply = True\<rparr>"
  have short: "Type ?short = ''pty-req''
        \<and> parsePtyRequest example_chan_env (Payload ?short) = (0, 0, False)
      \<or> Type ?short = ''window-change''
        \<and> parseWinchRequest example_chan_env (Payload ?short) = (0, 0, False)"
    by (simp add: example_chan_env_def)
  have good: "Type ?good = ''pty-req''
        \<and> parsePtyRequest example_chan_env (Payload ?good) = (120, 40, True)
      \<or> Type ?good = ''window-change''
        \<and> parseWinchRequest example_chan_env (Payload ?good) = (120, 40, True)"
    by (simp add: example_chan_env_def)
  have wide: "Type ?wide = ''pty-req''
        \<and> parsePtyRequest example_chan_env (Payload ?wide) = (220, 40, True)
      \<or> Type ?wide = ''window-change''
        \<and> parseWinchRequest example_chan_env (Payload ?wide) = (220, 40, True)"
    by (simp add: example_chan_env_def)
  have size: "term_SetSize example_chan_env 120 40 = None"
    "term_SetSize example_chan_env 220 40 \<noteq> None"
    by (simp_all add: example_chan_env_def)
  show ?thesis
    using geometry_request_reply [OF short, of 1 alice False]
      geometry_request_reply [OF good, of 1 alice False]
      geometry_request_reply [OF wide, of 1 alice False]
      size
    by simp
qed


end
